theory Spec2Isabelle
  imports Main "HOL-Library.Word"
begin

section \<open>Shared vocabulary\<close>

text \<open>
  Go's \<open>time.Duration\<close> is a signed 64-bit count of nanoseconds; arithmetic on it wraps
  around and comparisons are signed.  Go's \<open>int\<close> counters (attempt numbers, batch sizes)
  are modelled as unbounded integers: the loops below never count beyond their bound.
\<close>

type_synonym Duration = "64 word"

text \<open>
  Error values.  \<open>External\<close> is an error produced by a collaborator outside the modelled
  code (the version-control command surface, the operating system); the other constructors
  are the errors built by \<open>fmt.Errorf\<close> in the source, named after their message.
\<close>

datatype error =
    External string
  | UpdateIndexFailed error string
  | UpdateIndexRetriesExhausted int
  | RollbackInconsistent error
  | ForcePushFailed error
  | RollbackFailed error
  | ManualResolutionRequired

text \<open>\<open>strings.Contains(s, substr)\<close>: \<open>substr\<close> occurs in \<open>s\<close> as a contiguous run of bytes.\<close>

fun is_prefix :: "string \<Rightarrow> string \<Rightarrow> bool" where
  "is_prefix [] s = True"
| "is_prefix (c # p) [] = False"
| "is_prefix (c # p) (d # s) = (c = d \<and> is_prefix p s)"

fun Contains :: "string \<Rightarrow> string \<Rightarrow> bool" where
  "Contains [] substr = (substr = [])"
| "Contains (c # s) substr = (is_prefix substr (c # s) \<or> Contains s substr)"


section \<open>Content Identity Cache (internal/subrepo/cache.go)\<close>

text \<open>
  A \<open>time.Time\<close> denotes an instant (seconds and nanoseconds) together with a location used
  only for presentation.  \<open>Time.Equal\<close> compares the instants and ignores the location.
  Modification times read from the file system carry no monotonic clock reading.
\<close>

record Time =
  sec :: int
  nsec :: int
  loc :: string

definition Time_Equal :: "Time \<Rightarrow> Time \<Rightarrow> bool" where
  "Time_Equal t u \<longleftrightarrow> sec t = sec u \<and> nsec t = nsec u"

record HashCacheEntry =
  Hash :: string
  ModTime :: Time
  Size :: int

type_synonym HashCache = "string \<rightharpoonup> HashCacheEntry"

definition NewHashCache :: HashCache where
  "NewHashCache = Map.empty"

definition Get :: "HashCache \<Rightarrow> string \<Rightarrow> Time \<Rightarrow> int \<Rightarrow> string \<times> bool" where
  "Get hc path modTime sz =
     (case hc path of
        None \<Rightarrow> ('''', False)
      | Some entry \<Rightarrow>
          if Time_Equal (ModTime entry) modTime \<and> Size entry = sz
          then (Hash entry, True)
          else ('''', False))"

definition Set :: "HashCache \<Rightarrow> string \<Rightarrow> string \<Rightarrow> Time \<Rightarrow> int \<Rightarrow> HashCache" where
  "Set hc path hash modTime sz =
     hc(path \<mapsto> \<lparr>Hash = hash, ModTime = modTime, Size = sz\<rparr>)"


section \<open>File classification by size\<close>

text \<open>
  \<open>os.Stat\<close> is modelled by a partial map from paths to sizes: \<open>None\<close> is a failed stat call.
\<close>

type_synonym FileSystem = "string \<rightharpoonup> int"

subsection \<open>\<open>ClassifyFilesBySize\<close> of the batch package\<close>

record FileClassification =
  Small :: "string list"
  Medium :: "string list"
  Large :: "string list"

fun classifyLoop :: "FileSystem \<Rightarrow> string list \<Rightarrow> FileClassification \<Rightarrow> FileClassification" where
  "classifyLoop fs [] classification = classification"
| "classifyLoop fs (file # files) classification =
     (case fs file of
        Some fileSize \<Rightarrow>
          if fileSize < 5 * 1024 * 1024
          then classifyLoop fs files (classification\<lparr>Small := Small classification @ [file]\<rparr>)
          else if fileSize < 100 * 1024 * 1024
          then classifyLoop fs files (classification\<lparr>Medium := Medium classification @ [file]\<rparr>)
          else classifyLoop fs files (classification\<lparr>Large := Large classification @ [file]\<rparr>)
      | None \<Rightarrow>
          \<comment> \<open>If cannot stat, treat as small file\<close>
          classifyLoop fs files (classification\<lparr>Small := Small classification @ [file]\<rparr>))"

definition ClassifyFilesBySize :: "FileSystem \<Rightarrow> string list \<Rightarrow> FileClassification" where
  "ClassifyFilesBySize fs files = classifyLoop fs files \<lparr>Small = [], Medium = [], Large = []\<rparr>"

subsection \<open>The classification loop of \<open>processSpecialRepoFastAndSafe\<close>\<close>

text \<open>The fields of \<open>config.Config\<close> read by the modelled code, with the defaults of \<open>DefaultConfig\<close>.\<close>

record Config =
  RemoteName :: string
  BranchName :: string
  MergeFailureStrategy :: string
  LockFileMaxAge :: Duration
  SmallFileThreshold :: int
  MediumFileThreshold :: int
  BatchSize :: int
  IndexUpdateMaxRetries :: int
  IndexUpdateRetryDelay :: Duration
  MergeLogLines :: int

definition Second :: Duration where
  "Second = 1000000000"

definition DefaultConfig :: Config where
  "DefaultConfig =
     \<lparr>RemoteName = ''origin'', BranchName = ''main'', MergeFailureStrategy = ''force-push'',
      LockFileMaxAge = 60 * Second,
      SmallFileThreshold = 5 * 1024 * 1024, MediumFileThreshold = 100 * 1024 * 1024,
      BatchSize = 100,
      IndexUpdateMaxRetries = 5, IndexUpdateRetryDelay = 2 * Second,
      MergeLogLines = 10\<rparr>"

fun classifyWorkLoop ::
  "Config \<Rightarrow> FileSystem \<Rightarrow> string list \<Rightarrow>
   string list \<times> string list \<times> string list \<Rightarrow> string list \<times> string list \<times> string list" where
  "classifyWorkLoop cfg fs [] acc = acc"
| "classifyWorkLoop cfg fs (fp # workFiles) (smallFiles, mediumFiles, largeFiles) =
     (case fs fp of
        Some fileSize \<Rightarrow>
          if fileSize < SmallFileThreshold cfg
          then classifyWorkLoop cfg fs workFiles (smallFiles @ [fp], mediumFiles, largeFiles)
          else if fileSize < MediumFileThreshold cfg
          then classifyWorkLoop cfg fs workFiles (smallFiles, mediumFiles @ [fp], largeFiles)
          else classifyWorkLoop cfg fs workFiles (smallFiles, mediumFiles, largeFiles @ [fp])
      | None \<Rightarrow> classifyWorkLoop cfg fs workFiles (smallFiles, mediumFiles, largeFiles))"

definition classifyWorkFiles ::
  "Config \<Rightarrow> FileSystem \<Rightarrow> string list \<Rightarrow> string list \<times> string list \<times> string list" where
  "classifyWorkFiles cfg fs workFiles = classifyWorkLoop cfg fs workFiles ([], [], [])"


section \<open>Merge engine (internal/merge)\<close>

text \<open>
  The version-control command surface (\<open>git.GitOps\<close>) is an external collaborator.  Each
  call made on it is recorded, with the answer it gave, as an event; the collaborator
  itself is a family of functions from the events so far to the answer of the next call,
  so that it may answer the same call differently at different moments.  A model function
  takes the events that happened before it and returns the events it added.
\<close>

datatype git_event =
    HasStagedChanges bool
  | Commit string "error option"
  | GetRevision string "error + string"
  | GetMergeBase string string "error + string"
  | Pull "error option"
  | Push "error option"
  | CreateBranch string "error option"
  | MergeWithLog string string int "error option"
  | GetConflictedFiles "error + string list"
  | CheckoutTheirs string "error option"
  | Add string "error option"
  | DeleteBranch string "error option"
  | MergeAbort "error option"
  | Reset string bool "error option"
  | ForcePush "error option"

record GitOps =
  hasStagedChanges :: "git_event list \<Rightarrow> bool"
  commit :: "git_event list \<Rightarrow> string \<Rightarrow> error option"
  getRevision :: "git_event list \<Rightarrow> string \<Rightarrow> error + string"
  getMergeBase :: "git_event list \<Rightarrow> string \<Rightarrow> string \<Rightarrow> error + string"
  pull :: "git_event list \<Rightarrow> error option"
  push :: "git_event list \<Rightarrow> error option"
  createBranch :: "git_event list \<Rightarrow> string \<Rightarrow> error option"
  mergeWithLog :: "git_event list \<Rightarrow> string \<Rightarrow> string \<Rightarrow> int \<Rightarrow> error option"
  getConflictedFiles :: "git_event list \<Rightarrow> error + string list"
  checkoutTheirs :: "git_event list \<Rightarrow> string \<Rightarrow> error option"
  add :: "git_event list \<Rightarrow> string \<Rightarrow> error option"
  deleteBranch :: "git_event list \<Rightarrow> string \<Rightarrow> error option"
  mergeAbort :: "git_event list \<Rightarrow> error option"
  reset :: "git_event list \<Rightarrow> string \<Rightarrow> bool \<Rightarrow> error option"
  forcePush :: "git_event list \<Rightarrow> error option"

text \<open>A result together with the events of a later part of the run, put after earlier events.\<close>

fun after :: "'e list \<Rightarrow> 'r \<times> 'e list \<Rightarrow> 'r \<times> 'e list" where
  "after evs (res, rest) = (res, evs @ rest)"

definition LockFilePatterns :: "string list" where
  "LockFilePatterns =
     [''package-lock.json'', ''yarn.lock'', ''pnpm-lock.yaml'', ''Pipfile.lock'',
      ''composer.lock'', ''Gemfile.lock'', ''go.sum'', ''Cargo.lock'']"

definition isLockFile :: "string \<Rightarrow> bool" where
  "isLockFile conflictFile = list_ex (\<lambda>pattern. Contains conflictFile pattern) LockFilePatterns"

text \<open>
  The loop over the conflicted files (merge.go, lines 178 to 203).  Its counter
  \<open>conflictsResolved\<close> is only logged and is left out.
\<close>

fun resolveConflicts :: "GitOps \<Rightarrow> git_event list \<Rightarrow> string list \<Rightarrow> git_event list" where
  "resolveConflicts git tr [] = []"
| "resolveConflicts git tr (conflictFile # conflictFiles) =
     (if isLockFile conflictFile then
        (case checkoutTheirs git tr conflictFile of
           Some err \<Rightarrow>
             CheckoutTheirs conflictFile (Some err) #
             resolveConflicts git (tr @ [CheckoutTheirs conflictFile (Some err)]) conflictFiles
         | None \<Rightarrow>
             (let staged = add git (tr @ [CheckoutTheirs conflictFile None]) conflictFile
              in CheckoutTheirs conflictFile None # Add conflictFile staged #
                 resolveConflicts git
                   (tr @ [CheckoutTheirs conflictFile None, Add conflictFile staged]) conflictFiles))
      else resolveConflicts git tr conflictFiles)"

text \<open>\<open>SafeRollback\<close> (enhanced.go): the part that decides on the forced push comes last.\<close>

definition applyFailureStrategy ::
  "Config \<Rightarrow> GitOps \<Rightarrow> git_event list \<Rightarrow> error option \<times> git_event list" where
  "applyFailureStrategy cfg git tr =
     (if MergeFailureStrategy cfg = ''force-push'' then
        (case forcePush git tr of
           Some err \<Rightarrow> (Some (ForcePushFailed err), [ForcePush (Some err)])
         | None \<Rightarrow> (None, [ForcePush None]))
      else (None, []))"

definition SafeRollback ::
  "Config \<Rightarrow> GitOps \<Rightarrow> git_event list \<Rightarrow> string \<Rightarrow> error option \<times> git_event list" where
  "SafeRollback cfg git tr backupBranch =
     (let aborted = mergeAbort git tr;
          evs1 = (case aborted of
                    None \<Rightarrow> [MergeAbort aborted]
                  | Some err \<Rightarrow>
                      [MergeAbort aborted,
                       Reset ''HEAD'' False (reset git (tr @ [MergeAbort aborted]) ''HEAD'' False)]);
          restored = reset git (tr @ evs1) backupBranch True;
          evs2 = evs1 @ [Reset backupBranch True restored]
      in case restored of
           None \<Rightarrow> after evs2 (applyFailureStrategy cfg git (tr @ evs2))
         | Some err \<Rightarrow>
             (case reset git (tr @ evs2) ''HEAD'' True of
                Some err' \<Rightarrow> (Some (RollbackInconsistent err'), evs2 @ [Reset ''HEAD'' True (Some err')])
              | None \<Rightarrow>
                  after (evs2 @ [Reset ''HEAD'' True None])
                    (applyFailureStrategy cfg git (tr @ evs2 @ [Reset ''HEAD'' True None]))))"

text \<open>
  \<open>SmartThreeWayMerge\<close> (merge.go).  The two readings of the clock, already formatted, are
  the parameters \<open>branchStamp\<close> and \<open>msgStamp\<close>.  The function is cut at its comments:
  the push of a finished merge with the removal of the backup branch, the handling of
  conflicts (lines 154 to 265), the diverged case (lines 108 to 152), the commit of staged
  leftovers (lines 45 to 50) and the function from its start.
\<close>

definition pushAndCleanUp ::
  "GitOps \<Rightarrow> git_event list \<Rightarrow> string \<Rightarrow> error option \<times> git_event list" where
  "pushAndCleanUp git tr backupBranch =
     (case push git tr of
        Some err \<Rightarrow> (Some err, [Push (Some err)])
      | None \<Rightarrow>
          (None, [Push None,
                  DeleteBranch backupBranch (deleteBranch git (tr @ [Push None]) backupBranch)]))"

definition handleConflicts ::
  "Config \<Rightarrow> GitOps \<Rightarrow> git_event list \<Rightarrow> string \<Rightarrow> string \<Rightarrow> error option \<times> git_event list" where
  "handleConflicts cfg git tr backupBranch mergeMsg =
     (case getConflictedFiles git tr of
        Inl err \<Rightarrow> (Some err, [GetConflictedFiles (Inl err)])
      | Inr conflictFiles \<Rightarrow>
          (let evs1 = GetConflictedFiles (Inr conflictFiles) #
                      resolveConflicts git (tr @ [GetConflictedFiles (Inr conflictFiles)]) conflictFiles;
               remaining = getConflictedFiles git (tr @ evs1);
               evs2 = evs1 @ [GetConflictedFiles remaining]
           in case remaining of
                Inl err \<Rightarrow> (Some err, evs2)
              | Inr remainingConflicts \<Rightarrow>
                  if length remainingConflicts = 0 then
                    (case commit git (tr @ evs2) mergeMsg of
                       Some err \<Rightarrow> (Some err, evs2 @ [Commit mergeMsg (Some err)])
                     | None \<Rightarrow>
                         after (evs2 @ [Commit mergeMsg None])
                           (pushAndCleanUp git (tr @ evs2 @ [Commit mergeMsg None]) backupBranch))
                  else
                    (case SafeRollback cfg git (tr @ evs2) backupBranch of
                       (Some err, evs) \<Rightarrow> (Some (RollbackFailed err), evs2 @ evs)
                     | (None, evs) \<Rightarrow> (Some ManualResolutionRequired, evs2 @ evs))))"

definition backupBranchName :: "string \<Rightarrow> string" where
  "backupBranchName branchStamp = ''backup-before-merge-'' @ branchStamp"

definition mergeMessage :: "string \<Rightarrow> string" where
  "mergeMessage msgStamp = ''Auto-merge: Intelligent three-way merge at '' @ msgStamp"

definition divergedMerge ::
  "Config \<Rightarrow> GitOps \<Rightarrow> git_event list \<Rightarrow> string \<Rightarrow> string \<Rightarrow> string \<Rightarrow>
   error option \<times> git_event list" where
  "divergedMerge cfg git tr remoteRef branchStamp msgStamp =
     (let backupBranch = backupBranchName branchStamp
      in case createBranch git tr backupBranch of
           Some err \<Rightarrow> (Some err, [CreateBranch backupBranch (Some err)])
         | None \<Rightarrow>
             (let mergeMsg = mergeMessage msgStamp;
                  merged = mergeWithLog git (tr @ [CreateBranch backupBranch None])
                             remoteRef mergeMsg (MergeLogLines cfg);
                  evs = [CreateBranch backupBranch None,
                         MergeWithLog remoteRef mergeMsg (MergeLogLines cfg) merged]
              in case merged of
                   None \<Rightarrow> after evs (pushAndCleanUp git (tr @ evs) backupBranch)
                 | Some err \<Rightarrow> after evs (handleConflicts cfg git (tr @ evs) backupBranch mergeMsg)))"

definition remoteRefOf :: "Config \<Rightarrow> string" where
  "remoteRefOf cfg = RemoteName cfg @ ''/'' @ BranchName cfg"

text \<open>Staged changes left over are committed first; a failure of that commit is only logged.\<close>

definition commitLeftovers :: "GitOps \<Rightarrow> git_event list \<Rightarrow> git_event list" where
  "commitLeftovers git tr =
     (if hasStagedChanges git tr
      then [HasStagedChanges True,
            Commit ''chore: Auto-commit staged changes before merge''
              (commit git (tr @ [HasStagedChanges True])
                 ''chore: Auto-commit staged changes before merge'')]
      else [HasStagedChanges False])"

definition SmartThreeWayMerge ::
  "Config \<Rightarrow> GitOps \<Rightarrow> string \<Rightarrow> string \<Rightarrow> git_event list \<Rightarrow> error option \<times> git_event list" where
  "SmartThreeWayMerge cfg git branchStamp msgStamp tr =
     (let evs0 = commitLeftovers git tr
      in case getRevision git (tr @ evs0) ''@'' of
           Inl err \<Rightarrow> (Some err, evs0 @ [GetRevision ''@'' (Inl err)])
         | Inr local \<Rightarrow>
       (let evs1 = evs0 @ [GetRevision ''@'' (Inr local)];
            remoteRef = remoteRefOf cfg
        in case getRevision git (tr @ evs1) remoteRef of
             Inl err \<Rightarrow> (Some err, evs1 @ [GetRevision remoteRef (Inl err)])
           | Inr remote \<Rightarrow>
         (let evs2 = evs1 @ [GetRevision remoteRef (Inr remote)]
          in case getMergeBase git (tr @ evs2) ''@'' remoteRef of
               Inl err \<Rightarrow> (Some err, evs2 @ [GetMergeBase ''@'' remoteRef (Inl err)])
             | Inr base \<Rightarrow>
           (let evs3 = evs2 @ [GetMergeBase ''@'' remoteRef (Inr base)]
            in if local = remote then (None, evs3)
               else if local = base then
                 (let pulled = pull git (tr @ evs3) in (pulled, evs3 @ [Pull pulled]))
               else if remote = base then
                 (let pushed = push git (tr @ evs3) in (pushed, evs3 @ [Push pushed]))
               else after evs3
                      (divergedMerge cfg git (tr @ evs3) remoteRef branchStamp msgStamp)))))"


text \<open>What can be read off the events of a merge.\<close>

fun isGetMergeBase :: "git_event \<Rightarrow> bool" where
  "isGetMergeBase (GetMergeBase a b answer) = True"
| "isGetMergeBase e = False"

fun isLookup :: "git_event \<Rightarrow> bool" where
  "isLookup (GetRevision ref answer) = True"
| "isLookup (GetMergeBase a b answer) = True"
| "isLookup e = False"

text \<open>The events of the preparation: the check for staged leftovers, their commit, the lookups of the two heads.\<close>

fun isPreparation :: "git_event \<Rightarrow> bool" where
  "isPreparation (HasStagedChanges staged) = True"
| "isPreparation (Commit msg answer) = True"
| "isPreparation (GetRevision ref answer) = True"
| "isPreparation e = False"





text \<open>The events of the automatic resolution of a conflicted file.\<close>

fun isResolution :: "git_event \<Rightarrow> bool" where
  "isResolution (CheckoutTheirs file answer) = True"
| "isResolution (Add file answer) = True"
| "isResolution e = False"

fun isGetConflictedFiles :: "git_event \<Rightarrow> bool" where
  "isGetConflictedFiles (GetConflictedFiles answer) = True"
| "isGetConflictedFiles e = False"




text \<open>
  A scripted collaborator for concrete runs: no staged leftovers, the three revisions as
  given, the given answers of the merge and of the push, every other command succeeding,
  and the listing of conflicted files giving those of \<open>conflicts\<close> not staged so far.
\<close>

definition scriptedGit ::
  "string \<Rightarrow> string \<Rightarrow> string \<Rightarrow> error option \<Rightarrow> error option \<Rightarrow> string list \<Rightarrow> GitOps" where
  "scriptedGit local remote base merged pushed conflicts =
     \<lparr>hasStagedChanges = (\<lambda>tr. False),
      commit = (\<lambda>tr msg. None),
      getRevision = (\<lambda>tr ref. if ref = ''@'' then Inr local else Inr remote),
      getMergeBase = (\<lambda>tr a b. Inr base),
      pull = (\<lambda>tr. None),
      push = (\<lambda>tr. pushed),
      createBranch = (\<lambda>tr branch. None),
      mergeWithLog = (\<lambda>tr ref msg n. merged),
      getConflictedFiles = (\<lambda>tr. Inr (filter (\<lambda>file. Add file None \<notin> set tr) conflicts)),
      checkoutTheirs = (\<lambda>tr file. None),
      add = (\<lambda>tr file. None),
      deleteBranch = (\<lambda>tr branch. None),
      mergeAbort = (\<lambda>tr. None),
      reset = (\<lambda>tr target hard. None),
      forcePush = (\<lambda>tr. None)\<rparr>"


section \<open>Index Mutator (internal/subrepo/subrepo.go, \<open>batchUpdateIndex\<close>)\<close>

text \<open>
  The operating system and the external index-update command are collaborators, recorded
  like the version-control commands above.  \<open>StatLock\<close> is the stat call on the lock
  marker, answered with the marker's age (\<open>time.Since\<close> of its modification time) when
  the marker exists; \<open>RemoveLock\<close> is its deletion; \<open>UpdateIndex\<close> is one run of the bulk
  index-update command on a payload, answered with the error and the captured diagnostic
  text when it fails.
\<close>

datatype index_event =
    StatLock "Duration option"
  | RemoveLock "error option"
  | Sleep Duration
  | UpdateIndex string "(error \<times> string) option"

record IndexEnv =
  statLock :: "index_event list \<Rightarrow> Duration option"
  removeLock :: "index_event list \<Rightarrow> error option"
  runUpdateIndex :: "index_event list \<Rightarrow> string \<Rightarrow> (error \<times> string) option"

record fileOperation =
  mode :: string
  hash :: string
  path :: string

text \<open>The payload: one line \<open>mode hash TAB path\<close> per operation.\<close>

definition indexInfo :: "fileOperation list \<Rightarrow> string" where
  "indexInfo operations =
     concat (map (\<lambda>op. mode op @ '' '' @ hash op @ [CHR 0x09] @ path op @ [CHR 0x0A]) operations)"

text \<open>
  The test for a lock conflict in the diagnostic text: it names the lock marker, or it
  holds the localised message "file exists" (given here by its UTF-8 bytes).
\<close>

definition fileExistsMessage :: string where
  "fileExistsMessage =
     [CHR 0xE6, CHR 0x96, CHR 0x87, CHR 0xE4, CHR 0xBB, CHR 0xB6, CHR 0xE5, CHR 0xB7, CHR 0xB2,
      CHR 0xE5, CHR 0xAD, CHR 0x98, CHR 0xE5, CHR 0x9C, CHR 0xA8]"

definition lockConflict :: "string \<Rightarrow> bool" where
  "lockConflict stderrStr \<longleftrightarrow>
     Contains stderrStr ''index.lock'' \<or> Contains stderrStr fileExistsMessage"

text \<open>
  The retry loop (lines 855 to 921), from the state it has at the head of an iteration:
  the attempt number and the current retry delay.
\<close>

function updateIndexLoop ::
  "Config \<Rightarrow> IndexEnv \<Rightarrow> string \<Rightarrow> int \<Rightarrow> Duration \<Rightarrow> index_event list \<Rightarrow>
   error option \<times> index_event list" where
  "updateIndexLoop cfg env payload attempt retryDelay tr =
     (if attempt \<le> IndexUpdateMaxRetries cfg then
        (let inspected = statLock env tr;
             waits = (case inspected of
                        Some lockAge \<Rightarrow> \<not> sint (LockFileMaxAge cfg) < sint lockAge
                      | None \<Rightarrow> False)
         in if waits then
              after [StatLock inspected, Sleep retryDelay]
                (updateIndexLoop cfg env payload (attempt + 1) retryDelay
                   (tr @ [StatLock inspected, Sleep retryDelay]))
            else
              (let evs1 = (case inspected of
                             Some lockAge \<Rightarrow>
                               [StatLock inspected,
                                RemoveLock (removeLock env (tr @ [StatLock inspected]))]
                           | None \<Rightarrow> [StatLock inspected]);
                   answer = runUpdateIndex env (tr @ evs1) payload;
                   evs2 = evs1 @ [UpdateIndex payload answer]
               in case answer of
                    None \<Rightarrow> (None, evs2)
                  | Some (err, stderrStr) \<Rightarrow>
                      if lockConflict stderrStr \<and> attempt < IndexUpdateMaxRetries cfg then
                        after (evs2 @ [Sleep retryDelay])
                          (updateIndexLoop cfg env payload (attempt + 1) (retryDelay * 2)
                             (tr @ evs2 @ [Sleep retryDelay]))
                      else (Some (UpdateIndexFailed err stderrStr), evs2)))
      else (Some (UpdateIndexRetriesExhausted (IndexUpdateMaxRetries cfg)), []))"
  by pat_completeness auto
termination
  by (relation "measure (\<lambda>(cfg, env, payload, attempt, retryDelay, tr).
        nat (IndexUpdateMaxRetries cfg + 1 - attempt))") auto

declare updateIndexLoop.simps [simp del]

definition batchUpdateIndex ::
  "Config \<Rightarrow> IndexEnv \<Rightarrow> fileOperation list \<Rightarrow> index_event list \<Rightarrow>
   error option \<times> index_event list" where
  "batchUpdateIndex cfg env operations tr =
     (if length operations = 0 then (None, [])
      else updateIndexLoop cfg env (indexInfo operations) 1 (IndexUpdateRetryDelay cfg) tr)"

text \<open>
  The events of an inspection of the lock marker after which the attempt goes on: the stat
  call and, when it found a marker, the deletion of the marker.
\<close>

definition inspection :: "IndexEnv \<Rightarrow> index_event list \<Rightarrow> index_event list" where
  "inspection env tr =
     (case statLock env tr of
        Some lockAge \<Rightarrow>
          [StatLock (Some lockAge), RemoveLock (removeLock env (tr @ [StatLock (Some lockAge)]))]
      | None \<Rightarrow> [StatLock None])"

text \<open>
  The inspection lets the attempt go on: there is no marker, or the marker is older than
  the threshold.
\<close>

definition proceeds :: "Config \<Rightarrow> IndexEnv \<Rightarrow> index_event list \<Rightarrow> bool" where
  "proceeds cfg env tr \<longleftrightarrow>
     (case statLock env tr of Some lockAge \<Rightarrow> sint (LockFileMaxAge cfg) < sint lockAge | None \<Rightarrow> True)"

text \<open>What can be read off the events of a run.\<close>

fun isUpdateIndex :: "index_event \<Rightarrow> bool" where
  "isUpdateIndex (UpdateIndex payload answer) = True"
| "isUpdateIndex e = False"

text \<open>
  The events of a run that finds no marker and whose index update fails with the same
  lock conflict every time, when \<open>n\<close> attempts are left after the present one: each failed
  run but the last is followed by a sleep, and the sleep doubles from one to the next.
\<close>

fun contention :: "string \<Rightarrow> error \<times> string \<Rightarrow> Duration \<Rightarrow> nat \<Rightarrow> index_event list" where
  "contention payload failure retryDelay 0 = [StatLock None, UpdateIndex payload (Some failure)]"
| "contention payload failure retryDelay (Suc n) =
     [StatLock None, UpdateIndex payload (Some failure), Sleep retryDelay] @
     contention payload failure (retryDelay * 2) n"

text \<open>
  Collaborators for concrete runs: one that always finds a lock marker five seconds old;
  one that always finds a marker two minutes old, and can delete it; one that finds no
  marker and whose index update fails with a lock conflict twice and then succeeds; one
  whose index update always fails with a lock conflict; and one whose index update always
  fails for another reason.
\<close>

definition recentLockEnv :: IndexEnv where
  "recentLockEnv =
     \<lparr>statLock = (\<lambda>tr. Some (5 * Second)),
      removeLock = (\<lambda>tr. None),
      runUpdateIndex = (\<lambda>tr payload. None)\<rparr>"

definition staleLockEnv :: IndexEnv where
  "staleLockEnv =
     \<lparr>statLock = (\<lambda>tr. Some (120 * Second)),
      removeLock = (\<lambda>tr. None),
      runUpdateIndex = (\<lambda>tr payload. None)\<rparr>"

definition conflictTwiceEnv :: IndexEnv where
  "conflictTwiceEnv =
     \<lparr>statLock = (\<lambda>tr. None),
      removeLock = (\<lambda>tr. None),
      runUpdateIndex = (\<lambda>tr payload.
        if length (filter isUpdateIndex tr) < 2
        then Some (External ''exit status 128'', ''fatal: Unable to create index.lock: File exists'')
        else None)\<rparr>"

definition contendedEnv :: IndexEnv where
  "contendedEnv =
     \<lparr>statLock = (\<lambda>tr. None),
      removeLock = (\<lambda>tr. None),
      runUpdateIndex = (\<lambda>tr payload.
        Some (External ''exit status 128'', ''fatal: Unable to create index.lock: File exists''))\<rparr>"

definition brokenEnv :: IndexEnv where
  "brokenEnv =
     \<lparr>statLock = (\<lambda>tr. None),
      removeLock = (\<lambda>tr. None),
      runUpdateIndex = (\<lambda>tr payload. Some (External ''exit status 128'', ''fatal: bad object''))\<rparr>"

definition oneOperation :: "fileOperation list" where
  "oneOperation = [\<lparr>mode = ''100644'', hash = ''3b18e5'', path = ''a.txt''\<rparr>]"


section \<open>Batched removal (internal/subrepo/subrepo.go, \<open>batchRemoveFiles\<close>)\<close>

text \<open>
  A call either returns a value, or panics, or never returns.  \<open>GitRm\<close> is one run of the
  bulk removal command on a batch of paths, with its answer.
\<close>

datatype 'a outcome = Returns 'a | Panics | Diverges

datatype rm_event = GitRm "string list" "(error \<times> string) option"

type_synonym RmRunner = "rm_event list \<Rightarrow> string list \<Rightarrow> (error \<times> string) option"

text \<open>
  The loop over the batches, from the state it has at the head of an iteration.  With a
  negative batch size the slice \<open>files[i:end]\<close> has its end before its start and the
  first iteration panics; with a batch size of zero the division \<open>i / batchSize\<close> panics.
\<close>

function removeLoop ::
  "int \<Rightarrow> RmRunner \<Rightarrow> string list \<Rightarrow> int \<Rightarrow> int \<Rightarrow> string list \<Rightarrow> rm_event list \<Rightarrow>
   ((int \<times> string list) \<times> rm_event list) outcome" where
  "removeLoop batchSize runGitRm files i successCount failedFiles tr =
     (if i < int (length files) then
        if batchSize < 0 then Panics
        else if batchSize = 0 then Panics
        else
          (let end' = (if i + batchSize > int (length files) then int (length files)
                       else i + batchSize);
               batch = take (nat (end' - i)) (drop (nat i) files);
               answer = runGitRm tr batch
           in map_outcome (after [GitRm batch answer])
                (case answer of
                   Some failure \<Rightarrow>
                     removeLoop batchSize runGitRm files (i + batchSize)
                       successCount (failedFiles @ batch) (tr @ [GitRm batch answer])
                 | None \<Rightarrow>
                     removeLoop batchSize runGitRm files (i + batchSize)
                       (successCount + int (length batch)) failedFiles (tr @ [GitRm batch answer])))
      else Returns ((successCount, failedFiles), []))"
  by pat_completeness auto
termination
  by (relation "measure (\<lambda>(batchSize, runGitRm, files, i, successCount, failedFiles, tr).
        nat (int (length files) - i))") auto

declare removeLoop.simps [simp del]

definition batchRemoveFiles ::
  "Config \<Rightarrow> RmRunner \<Rightarrow> string list \<Rightarrow> rm_event list \<Rightarrow> (error option \<times> rm_event list) outcome" where
  "batchRemoveFiles cfg runGitRm files tr =
     (if length files = 0 then Returns (None, [])
      else map_outcome (\<lambda>(counts, evs). (None, evs))
             (removeLoop (BatchSize cfg) runGitRm files 0 0 [] tr))"


text \<open>A removal command that fails on every batch.\<close>

definition rmAlwaysFails :: RmRunner where
  "rmAlwaysFails tr batch = Some (External ''exit status 128'', ''fatal: pathspec'')"


section \<open>Batch Executor (package batch)\<close>















text \<open>What can be read off the events of the executor.\<close>




text \<open>Membership in exactly one of three lists.\<close>

definition inExactlyOne :: "'a \<Rightarrow> 'a list \<Rightarrow> 'a list \<Rightarrow> 'a list \<Rightarrow> bool" where
  "inExactlyOne x s m l \<longleftrightarrow>
     (x \<in> set s \<and> x \<notin> set m \<and> x \<notin> set l) \<or>
     (x \<notin> set s \<and> x \<in> set m \<and> x \<notin> set l) \<or>
     (x \<notin> set s \<and> x \<notin> set m \<and> x \<in> set l)"


section \<open>Properties of the cache\<close>

text \<open>
  C4.  After \<open>Set(p, h, m, s)\<close>, \<open>Get(p, m, s)\<close> returns \<open>(h, true)\<close>; a query for the
  same path \<open>p\<close> whose modification time is a different instant from the stored one (in the
  sense of \<open>Time.Equal\<close>, which is how the code compares times), or whose size differs from
  the stored size, is answered with \<open>found = false\<close>.
\<close>

theorem HashCache_Set_then_Get:
  "Get (Set hc p h m s) p m s = (h, True) \<and>
   (\<not> Time_Equal m m' \<or> s' \<noteq> s \<longrightarrow> snd (Get (Set hc p h m s) p m' s') = False)"
  by (auto simp: Get_def Set_def Time_Equal_def)

theorem HashCache_Set_then_Get_witness:
  "Get (Set NewHashCache ''a/b.txt'' ''3b18e5'' \<lparr>sec = 1700000000, nsec = 5, loc = ''UTC''\<rparr> 42)
       ''a/b.txt'' \<lparr>sec = 1700000000, nsec = 5, loc = ''UTC''\<rparr> 42 = (''3b18e5'', True) \<and>
   \<not> Time_Equal \<lparr>sec = 1700000000, nsec = 5, loc = ''UTC''\<rparr> \<lparr>sec = 1700000000, nsec = 6, loc = ''UTC''\<rparr> \<and>
   snd (Get (Set NewHashCache ''a/b.txt'' ''3b18e5'' \<lparr>sec = 1700000000, nsec = 5, loc = ''UTC''\<rparr> 42)
       ''a/b.txt'' \<lparr>sec = 1700000000, nsec = 6, loc = ''UTC''\<rparr> 42) = False"
  using HashCache_Set_then_Get [of NewHashCache "''a/b.txt''" "''3b18e5''"
      "\<lparr>sec = 1700000000, nsec = 5, loc = ''UTC''\<rparr>" 42
      "\<lparr>sec = 1700000000, nsec = 6, loc = ''UTC''\<rparr>" 42]
  by (simp add: Time_Equal_def)

section \<open>Properties of the classifications by size\<close>

lemma classifyLoop_Small:
  "Small (classifyLoop fs files c) =
   Small c @ filter (\<lambda>f. case fs f of None \<Rightarrow> True | Some n \<Rightarrow> n < 5 * 1024 * 1024) files"
  by (induction files arbitrary: c) (auto split: option.splits)

lemma classifyLoop_Medium:
  "Medium (classifyLoop fs files c) =
   Medium c @ filter (\<lambda>f. case fs f of None \<Rightarrow> False
                             | Some n \<Rightarrow> \<not> n < 5 * 1024 * 1024 \<and> n < 100 * 1024 * 1024) files"
  by (induction files arbitrary: c) (auto split: option.splits)

lemma classifyLoop_Large:
  "Large (classifyLoop fs files c) =
   Large c @ filter (\<lambda>f. case fs f of None \<Rightarrow> False
                            | Some n \<Rightarrow> \<not> n < 5 * 1024 * 1024 \<and> \<not> n < 100 * 1024 * 1024) files"
  by (induction files arbitrary: c) (auto split: option.splits)

lemma classifyWorkLoop_eq:
  "classifyWorkLoop cfg fs files (s, m, l) =
   (s @ filter (\<lambda>f. case fs f of None \<Rightarrow> False | Some n \<Rightarrow> n < SmallFileThreshold cfg) files,
    m @ filter (\<lambda>f. case fs f of None \<Rightarrow> False
                      | Some n \<Rightarrow> \<not> n < SmallFileThreshold cfg \<and> n < MediumFileThreshold cfg) files,
    l @ filter (\<lambda>f. case fs f of None \<Rightarrow> False
                      | Some n \<Rightarrow> \<not> n < SmallFileThreshold cfg \<and> \<not> n < MediumFileThreshold cfg) files)"
  by (induction files arbitrary: s m l) (auto split: option.splits)

lemma classifyLoop_length:
  "length (Small (classifyLoop fs files c)) + length (Medium (classifyLoop fs files c)) +
   length (Large (classifyLoop fs files c)) =
   length (Small c) + length (Medium c) + length (Large c) + length files"
  by (induction files arbitrary: c) (auto split: option.splits)

text \<open>
  C3, as amended.  Every file of the list given to a classifier that is classified lies in
  exactly one of the three tiers, and the three tiers of \<open>ClassifyFilesBySize\<close> together
  hold as many entries as the list.  A file whose size is exactly a threshold lies in the
  higher of the two adjacent tiers: the comparison with a threshold is strict.  For the
  configurable thresholds of the reconciler this holds when the small threshold is below
  the medium one, which the validation of the configuration demands.
\<close>

theorem Classifier_threshold_in_upper_tier:
  "file \<in> set files \<Longrightarrow>
   inExactlyOne file (Small (ClassifyFilesBySize fs files)) (Medium (ClassifyFilesBySize fs files))
     (Large (ClassifyFilesBySize fs files)) \<and>
   (fs file = Some (5 * 1024 * 1024) \<longrightarrow> file \<in> set (Medium (ClassifyFilesBySize fs files))) \<and>
   (fs file = Some (100 * 1024 * 1024) \<longrightarrow> file \<in> set (Large (ClassifyFilesBySize fs files))) \<and>
   length (Small (ClassifyFilesBySize fs files)) + length (Medium (ClassifyFilesBySize fs files)) +
     length (Large (ClassifyFilesBySize fs files)) = length files \<and>
   (fs file \<noteq> None \<longrightarrow>
      (case classifyWorkFiles cfg fs files of (smallFiles, mediumFiles, largeFiles) \<Rightarrow>
         inExactlyOne file smallFiles mediumFiles largeFiles \<and>
         (SmallFileThreshold cfg < MediumFileThreshold cfg \<longrightarrow>
            (fs file = Some (SmallFileThreshold cfg) \<longrightarrow> file \<in> set mediumFiles) \<and>
            (fs file = Some (MediumFileThreshold cfg) \<longrightarrow> file \<in> set largeFiles))))"
proof -
  assume mem: "file \<in> set files"
  have len: "length (Small (ClassifyFilesBySize fs files)) + length (Medium (ClassifyFilesBySize fs files)) +
     length (Large (ClassifyFilesBySize fs files)) = length files"
    using classifyLoop_length [of fs files "\<lparr>Small = [], Medium = [], Large = []\<rparr>"]
    by (simp add: ClassifyFilesBySize_def)
  have batch: "inExactlyOne file (Small (ClassifyFilesBySize fs files)) (Medium (ClassifyFilesBySize fs files))
     (Large (ClassifyFilesBySize fs files)) \<and>
   (fs file = Some (5 * 1024 * 1024) \<longrightarrow> file \<in> set (Medium (ClassifyFilesBySize fs files))) \<and>
   (fs file = Some (100 * 1024 * 1024) \<longrightarrow> file \<in> set (Large (ClassifyFilesBySize fs files)))"
    using mem
    by (auto simp: ClassifyFilesBySize_def inExactlyOne_def classifyLoop_Small classifyLoop_Medium
        classifyLoop_Large split: option.splits)
  have work: "fs file \<noteq> None \<longrightarrow>
      (case classifyWorkFiles cfg fs files of (smallFiles, mediumFiles, largeFiles) \<Rightarrow>
         inExactlyOne file smallFiles mediumFiles largeFiles \<and>
         (SmallFileThreshold cfg < MediumFileThreshold cfg \<longrightarrow>
            (fs file = Some (SmallFileThreshold cfg) \<longrightarrow> file \<in> set mediumFiles) \<and>
            (fs file = Some (MediumFileThreshold cfg) \<longrightarrow> file \<in> set largeFiles)))"
    using mem
    by (auto simp: classifyWorkFiles_def inExactlyOne_def classifyWorkLoop_eq split: option.splits)
  from len batch work show ?thesis by blast
qed

theorem Classifier_threshold_in_upper_tier_witness:
  "''b'' \<in> set [''a'', ''b'', ''c''] \<and>
   [''a'' \<mapsto> 7, ''b'' \<mapsto> 5 * 1024 * 1024, ''c'' \<mapsto> 100 * 1024 * 1024] ''b'' = Some (5 * 1024 * 1024) \<and>
   SmallFileThreshold DefaultConfig < MediumFileThreshold DefaultConfig \<and>
   [''a'' \<mapsto> 7, ''b'' \<mapsto> 5 * 1024 * 1024, ''c'' \<mapsto> 100 * 1024 * 1024] ''b''
     = Some (SmallFileThreshold DefaultConfig) \<and>
   ''b'' \<in> set (Medium (ClassifyFilesBySize
        [''a'' \<mapsto> 7, ''b'' \<mapsto> 5 * 1024 * 1024, ''c'' \<mapsto> 100 * 1024 * 1024] [''a'', ''b'', ''c''])) \<and>
   classifyWorkFiles DefaultConfig
        [''a'' \<mapsto> 7, ''b'' \<mapsto> 5 * 1024 * 1024, ''c'' \<mapsto> 100 * 1024 * 1024] [''a'', ''b'', ''c'']
     = ([''a''], [''b''], [''c''])"
  using Classifier_threshold_in_upper_tier [of "''b''" "[''a'', ''b'', ''c'']"
      "[''a'' \<mapsto> 7, ''b'' \<mapsto> 5 * 1024 * 1024, ''c'' \<mapsto> 100 * 1024 * 1024]" DefaultConfig]
  by (simp add: classifyWorkFiles_def DefaultConfig_def)

text \<open>
  A file of exactly 5 MiB is put in the medium tier and not in the small one, and a file of
  exactly 100 MiB in the large tier and not in the medium one.
\<close>

theorem Classifier_threshold_counterexample:
  "Small (ClassifyFilesBySize [''f'' \<mapsto> 5 * 1024 * 1024] [''f'']) = [] \<and>
   Medium (ClassifyFilesBySize [''f'' \<mapsto> 5 * 1024 * 1024] [''f'']) = [''f''] \<and>
   Medium (ClassifyFilesBySize [''g'' \<mapsto> 100 * 1024 * 1024] [''g'']) = [] \<and>
   Large (ClassifyFilesBySize [''g'' \<mapsto> 100 * 1024 * 1024] [''g'']) = [''g'']"
  by (simp add: ClassifyFilesBySize_def)

text \<open>
  C9, as amended.  A path whose stat call fails appears in no tier of the classification
  made by the reconciler (\<open>processSpecialRepoFastAndSafe\<close>), whereas
  \<open>ClassifyFilesBySize\<close> puts it in the small tier and in no other.  Neither
  classification has an error among its results.
\<close>

theorem Classifier_stat_failure:
  "fs file = None \<Longrightarrow>
   (case classifyWorkFiles cfg fs files of (smallFiles, mediumFiles, largeFiles) \<Rightarrow>
      file \<notin> set smallFiles \<and> file \<notin> set mediumFiles \<and> file \<notin> set largeFiles) \<and>
   (file \<in> set files \<longrightarrow>
      file \<in> set (Small (ClassifyFilesBySize fs files)) \<and>
      file \<notin> set (Medium (ClassifyFilesBySize fs files)) \<and>
      file \<notin> set (Large (ClassifyFilesBySize fs files)))"
  by (auto simp: classifyWorkFiles_def classifyWorkLoop_eq ClassifyFilesBySize_def
      classifyLoop_Small classifyLoop_Medium classifyLoop_Large split: option.splits)

theorem Classifier_stat_failure_witness:
  "[''a'' \<mapsto> (7::int)] ''gone'' = None \<and> ''gone'' \<in> set [''a'', ''gone''] \<and>
   classifyWorkFiles DefaultConfig [''a'' \<mapsto> 7] [''a'', ''gone''] = ([''a''], [], []) \<and>
   ClassifyFilesBySize [''a'' \<mapsto> 7] [''a'', ''gone''] = \<lparr>Small = [''a'', ''gone''], Medium = [], Large = []\<rparr>"
  using Classifier_stat_failure [of "[''a'' \<mapsto> 7]" "''gone''" DefaultConfig "[''a'', ''gone'']"]
  by (simp add: classifyWorkFiles_def DefaultConfig_def ClassifyFilesBySize_def)

text \<open>\<open>ClassifyFilesBySize\<close> keeps a path that cannot be read, as a small file.\<close>

theorem Classifier_stat_failure_counterexample:
  "Small (ClassifyFilesBySize Map.empty [''gone'']) = [''gone'']"
  by (simp add: ClassifyFilesBySize_def)

section \<open>Properties of the batched removal\<close>

lemma removeLoop_returns:
  "0 < batchSize \<Longrightarrow>
   \<exists>counts evs. removeLoop batchSize runGitRm files i successCount failedFiles tr = Returns (counts, evs)"
proof (induction batchSize runGitRm files i successCount failedFiles tr rule: removeLoop.induct)
  case (1 batchSize runGitRm files i successCount failedFiles tr)
  show ?case
  proof (cases "i < int (length files)")
    case False
    then show ?thesis by (subst removeLoop.simps) simp
  next
    case True
    with "1.prems" "1.IH" show ?thesis
      by (subst removeLoop.simps) (fastforce simp: Let_def split: option.splits)
  qed
qed

text \<open>
  C10, as amended.  \<open>batchRemoveFiles\<close> never returns an error value, whatever the
  configuration, the list of paths and the answers of the removal command; and with a
  positive configured batch size (the default is 100), or with an empty list, it returns,
  and what it returns is nil.  The failures of the batches are counted in local variables
  that are only logged.
\<close>

theorem batchRemoveFiles_never_returns_error:
  "(\<forall>err evs. batchRemoveFiles cfg runGitRm files tr \<noteq> Returns (Some err, evs)) \<and>
   (0 < BatchSize cfg \<or> files = [] \<longrightarrow>
      (\<exists>evs. batchRemoveFiles cfg runGitRm files tr = Returns (None, evs)))"
proof
  show "\<forall>err evs. batchRemoveFiles cfg runGitRm files tr \<noteq> Returns (Some err, evs)"
    by (cases "removeLoop (BatchSize cfg) runGitRm files 0 0 [] tr")
       (auto simp: batchRemoveFiles_def)
next
  show "0 < BatchSize cfg \<or> files = [] \<longrightarrow>
      (\<exists>evs. batchRemoveFiles cfg runGitRm files tr = Returns (None, evs))"
  proof
    assume "0 < BatchSize cfg \<or> files = []"
    then show "\<exists>evs. batchRemoveFiles cfg runGitRm files tr = Returns (None, evs)"
    proof
      assume "0 < BatchSize cfg"
      from removeLoop_returns [OF this, of runGitRm files 0 0 "[]" tr]
      show ?thesis by (auto simp: batchRemoveFiles_def)
    next
      assume "files = []"
      then show ?thesis by (simp add: batchRemoveFiles_def)
    qed
  qed
qed

theorem batchRemoveFiles_never_returns_error_witness:
  "0 < BatchSize (DefaultConfig\<lparr>BatchSize := 2\<rparr>) \<and>
   batchRemoveFiles (DefaultConfig\<lparr>BatchSize := 2\<rparr>) rmAlwaysFails [''a'', ''b'', ''c''] [] =
     Returns (None,
       [GitRm [''a'', ''b''] (Some (External ''exit status 128'', ''fatal: pathspec'')),
        GitRm [''c''] (Some (External ''exit status 128'', ''fatal: pathspec''))])"
  using batchRemoveFiles_never_returns_error
    [of "DefaultConfig\<lparr>BatchSize := 2\<rparr>" rmAlwaysFails "[''a'', ''b'', ''c'']" "[]"]
  by (simp add: batchRemoveFiles_def DefaultConfig_def rmAlwaysFails_def Let_def removeLoop.simps)

text \<open>
  With a configured batch size of zero the first batch panics on the division
  \<open>i / batchSize\<close>, and with a negative one on the slice \<open>files[i:end]\<close>: the call does
  not return.
\<close>

theorem batchRemoveFiles_counterexample:
  "batchRemoveFiles (DefaultConfig\<lparr>BatchSize := 0\<rparr>) rmAlwaysFails [''a''] [] = Panics \<and>
   batchRemoveFiles (DefaultConfig\<lparr>BatchSize := - 1\<rparr>) rmAlwaysFails [''a''] [] = Panics"
  by (simp add: batchRemoveFiles_def DefaultConfig_def removeLoop.simps)

section \<open>Properties of the merge engine\<close>

lemma after_eq: "after evs x = (fst x, evs @ snd x)"
  by (cases x) simp

subsection \<open>The loop over the conflicted files\<close>




subsection \<open>The parts of the merge\<close>
















lemma commitLeftovers_events:
  "e \<in> set (commitLeftovers git tr) \<Longrightarrow>
   isPreparation e \<and> \<not> isLookup e \<and> \<not> isGetMergeBase e \<and> \<not> isGetConflictedFiles e \<and>
   \<not> isResolution e \<and> (\<forall>ref msg n answer. e \<noteq> MergeWithLog ref msg n answer)"
  by (auto simp: commitLeftovers_def split: if_splits)



text \<open>
  C1.  Let the collaborator answer the lookup of the local head with \<open>local\<close>, the lookup
  of the remote head with \<open>remote\<close> and the lookup of their merge base with \<open>base\<close>,
  each at the moment \<open>SmartThreeWayMerge\<close> asks: after the commit of the staged
  leftovers (the events \<open>leftovers\<close>) and the lookups before it.  Then the run is the
  three lookups (the events \<open>lookups\<close>) and what the first condition that holds
  prescribes: if \<open>local = remote\<close> (Same, also when both equal \<open>base\<close>) nothing more,
  and the result is nil; otherwise if \<open>local = base\<close> (Behind) one pull and nothing more,
  whose answer is the result; otherwise if \<open>remote = base\<close> (Ahead) one push and nothing
  more, whose answer is the result; otherwise (Diverged) the creation of the backup branch
  and, once it exists, the merge of the remote branch.  Before the lookups there is only the
  check for staged leftovers and their commit.
\<close>

theorem SmartThreeWayMerge_classification:
  assumes left: "leftovers = commitLeftovers git tr"
    and loc: "getRevision git (tr @ leftovers) ''@'' = Inr local"
    and rem: "getRevision git (tr @ leftovers @ [GetRevision ''@'' (Inr local)]) (remoteRefOf cfg) = Inr remote"
    and bas: "getMergeBase git
                (tr @ leftovers @ [GetRevision ''@'' (Inr local), GetRevision (remoteRefOf cfg) (Inr remote)])
                ''@'' (remoteRefOf cfg) = Inr base"
    and looked: "lookups = leftovers @ [GetRevision ''@'' (Inr local), GetRevision (remoteRefOf cfg) (Inr remote),
                    GetMergeBase ''@'' (remoteRefOf cfg) (Inr base)]"
  shows "list_all isPreparation leftovers \<and>
    (local = remote \<longrightarrow>
       SmartThreeWayMerge cfg git branchStamp msgStamp tr = (None, lookups)) \<and>
    (local \<noteq> remote \<and> local = base \<longrightarrow>
       SmartThreeWayMerge cfg git branchStamp msgStamp tr =
         (pull git (tr @ lookups), lookups @ [Pull (pull git (tr @ lookups))])) \<and>
    (local \<noteq> remote \<and> local \<noteq> base \<and> remote = base \<longrightarrow>
       SmartThreeWayMerge cfg git branchStamp msgStamp tr =
         (push git (tr @ lookups), lookups @ [Push (push git (tr @ lookups))])) \<and>
    (local \<noteq> remote \<and> local \<noteq> base \<and> remote \<noteq> base \<longrightarrow>
       (\<exists>rest. snd (SmartThreeWayMerge cfg git branchStamp msgStamp tr) =
            lookups @ CreateBranch (backupBranchName branchStamp)
                     (createBranch git (tr @ lookups) (backupBranchName branchStamp)) # rest \<and>
          (createBranch git (tr @ lookups) (backupBranchName branchStamp) = None \<longrightarrow>
             (\<exists>rest'. rest =
                MergeWithLog (remoteRefOf cfg) (mergeMessage msgStamp) (MergeLogLines cfg)
                  (mergeWithLog git (tr @ lookups @ [CreateBranch (backupBranchName branchStamp) None])
                     (remoteRefOf cfg) (mergeMessage msgStamp) (MergeLogLines cfg)) # rest'))))"
proof -
  have prep: "list_all isPreparation leftovers"
    using commitLeftovers_events [of _ git tr] by (auto simp: left list_all_iff)
  have run: "SmartThreeWayMerge cfg git branchStamp msgStamp tr =
    (if local = remote then (None, lookups)
     else if local = base then (pull git (tr @ lookups), lookups @ [Pull (pull git (tr @ lookups))])
     else if remote = base then (push git (tr @ lookups), lookups @ [Push (push git (tr @ lookups))])
     else after lookups (divergedMerge cfg git (tr @ lookups) (remoteRefOf cfg) branchStamp msgStamp))"
    using loc rem bas
    by (simp add: SmartThreeWayMerge_def Let_def left [symmetric] looked)
  have div: "\<exists>rest. snd (divergedMerge cfg git (tr @ lookups) (remoteRefOf cfg) branchStamp msgStamp) =
            CreateBranch (backupBranchName branchStamp)
                     (createBranch git (tr @ lookups) (backupBranchName branchStamp)) # rest \<and>
          (createBranch git (tr @ lookups) (backupBranchName branchStamp) = None \<longrightarrow>
             (\<exists>rest'. rest =
                MergeWithLog (remoteRefOf cfg) (mergeMessage msgStamp) (MergeLogLines cfg)
                  (mergeWithLog git (tr @ lookups @ [CreateBranch (backupBranchName branchStamp) None])
                     (remoteRefOf cfg) (mergeMessage msgStamp) (MergeLogLines cfg)) # rest'))"
    by (simp add: divergedMerge_def Let_def after_eq split: option.splits)
  from prep run div show ?thesis
    by (simp add: after_eq)
qed

theorem SmartThreeWayMerge_classification_witness:
  "[HasStagedChanges False] = commitLeftovers (scriptedGit ''a1'' ''a1'' ''a1'' None None []) [] \<and>
   getRevision (scriptedGit ''a1'' ''a1'' ''a1'' None None []) [HasStagedChanges False] ''@'' = Inr ''a1'' \<and>
   remoteRefOf DefaultConfig = ''origin/main'' \<and>
   SmartThreeWayMerge DefaultConfig (scriptedGit ''a1'' ''a1'' ''a1'' None None [])
     ''20240101-000000'' ''2024-01-01 00:00:00'' [] =
   (None, [HasStagedChanges False, GetRevision ''@'' (Inr ''a1''),
           GetRevision ''origin/main'' (Inr ''a1''), GetMergeBase ''@'' ''origin/main'' (Inr ''a1'')]) \<and>
   SmartThreeWayMerge DefaultConfig (scriptedGit ''a1'' ''b2'' ''a1'' None None [])
     ''20240101-000000'' ''2024-01-01 00:00:00'' [] =
   (None, [HasStagedChanges False, GetRevision ''@'' (Inr ''a1''),
           GetRevision ''origin/main'' (Inr ''b2''), GetMergeBase ''@'' ''origin/main'' (Inr ''a1''),
           Pull None]) \<and>
   SmartThreeWayMerge DefaultConfig (scriptedGit ''b2'' ''a1'' ''a1'' None (Some (External ''rejected'')) [])
     ''20240101-000000'' ''2024-01-01 00:00:00'' [] =
   (Some (External ''rejected''),
          [HasStagedChanges False, GetRevision ''@'' (Inr ''b2''),
           GetRevision ''origin/main'' (Inr ''a1''), GetMergeBase ''@'' ''origin/main'' (Inr ''a1''),
           Push (Some (External ''rejected''))]) \<and>
   snd (SmartThreeWayMerge DefaultConfig (scriptedGit ''b2'' ''c3'' ''a1'' None None [])
     ''20240101-000000'' ''2024-01-01 00:00:00'' []) =
          [HasStagedChanges False, GetRevision ''@'' (Inr ''b2''),
           GetRevision ''origin/main'' (Inr ''c3''), GetMergeBase ''@'' ''origin/main'' (Inr ''a1''),
           CreateBranch ''backup-before-merge-20240101-000000'' None,
           MergeWithLog ''origin/main'' ''Auto-merge: Intelligent three-way merge at 2024-01-01 00:00:00'' 10 None,
           Push None, DeleteBranch ''backup-before-merge-20240101-000000'' None]"
  using SmartThreeWayMerge_classification [of "[HasStagedChanges False]"
      "scriptedGit ''a1'' ''a1'' ''a1'' None None []" "[]" "''a1''" DefaultConfig "''a1''" "''a1''"
      "[HasStagedChanges False, GetRevision ''@'' (Inr ''a1''),
           GetRevision ''origin/main'' (Inr ''a1''), GetMergeBase ''@'' ''origin/main'' (Inr ''a1'')]"
      "''20240101-000000''" "''2024-01-01 00:00:00''"]
    SmartThreeWayMerge_classification [of "[HasStagedChanges False]"
      "scriptedGit ''a1'' ''b2'' ''a1'' None None []" "[]" "''a1''" DefaultConfig "''b2''" "''a1''"
      "[HasStagedChanges False, GetRevision ''@'' (Inr ''a1''),
           GetRevision ''origin/main'' (Inr ''b2''), GetMergeBase ''@'' ''origin/main'' (Inr ''a1'')]"
      "''20240101-000000''" "''2024-01-01 00:00:00''"]
    SmartThreeWayMerge_classification [of "[HasStagedChanges False]"
      "scriptedGit ''b2'' ''a1'' ''a1'' None (Some (External ''rejected'')) []" "[]" "''b2''" DefaultConfig "''a1''" "''a1''"
      "[HasStagedChanges False, GetRevision ''@'' (Inr ''b2''),
           GetRevision ''origin/main'' (Inr ''a1''), GetMergeBase ''@'' ''origin/main'' (Inr ''a1'')]"
      "''20240101-000000''" "''2024-01-01 00:00:00''"]
    SmartThreeWayMerge_classification [of "[HasStagedChanges False]"
      "scriptedGit ''b2'' ''c3'' ''a1'' None None []" "[]" "''b2''" DefaultConfig "''c3''" "''a1''"
      "[HasStagedChanges False, GetRevision ''@'' (Inr ''b2''),
           GetRevision ''origin/main'' (Inr ''c3''), GetMergeBase ''@'' ''origin/main'' (Inr ''a1'')]"
      "''20240101-000000''" "''2024-01-01 00:00:00''"]
  by (simp add: SmartThreeWayMerge_def commitLeftovers_def scriptedGit_def DefaultConfig_def
      remoteRefOf_def Let_def divergedMerge_def pushAndCleanUp_def backupBranchName_def
      mergeMessage_def)











section \<open>Properties of the Index Mutator\<close>

lemma Second_sint: "sint (5 * Second) = 5000000000" "sint (60 * Second) = 60000000000" "sint (120 * Second) = 120000000000"
  by (simp_all add: Second_def)

lemma updateIndexLoop_exhausted:
  "\<not> attempt \<le> IndexUpdateMaxRetries cfg \<Longrightarrow>
   updateIndexLoop cfg env payload attempt retryDelay tr =
     (Some (UpdateIndexRetriesExhausted (IndexUpdateMaxRetries cfg)), [])"
  by (subst updateIndexLoop.simps) simp

lemma updateIndexLoop_wait:
  "attempt \<le> IndexUpdateMaxRetries cfg \<Longrightarrow> statLock env tr = Some lockAge \<Longrightarrow>
   \<not> sint (LockFileMaxAge cfg) < sint lockAge \<Longrightarrow>
   updateIndexLoop cfg env payload attempt retryDelay tr =
     after [StatLock (Some lockAge), Sleep retryDelay]
       (updateIndexLoop cfg env payload (attempt + 1) retryDelay
          (tr @ [StatLock (Some lockAge), Sleep retryDelay]))"
  by (subst updateIndexLoop.simps) (simp add: Let_def)

lemma updateIndexLoop_success:
  "attempt \<le> IndexUpdateMaxRetries cfg \<Longrightarrow> proceeds cfg env tr \<Longrightarrow>
   runUpdateIndex env (tr @ inspection env tr) payload = None \<Longrightarrow>
   updateIndexLoop cfg env payload attempt retryDelay tr =
     (None, inspection env tr @ [UpdateIndex payload None])"
  by (subst updateIndexLoop.simps)
     (auto simp: proceeds_def inspection_def Let_def split: option.splits)

lemma updateIndexLoop_conflict:
  "attempt < IndexUpdateMaxRetries cfg \<Longrightarrow> proceeds cfg env tr \<Longrightarrow>
   runUpdateIndex env (tr @ inspection env tr) payload = Some (err, stderrStr) \<Longrightarrow>
   lockConflict stderrStr \<Longrightarrow>
   updateIndexLoop cfg env payload attempt retryDelay tr =
     after (inspection env tr @ [UpdateIndex payload (Some (err, stderrStr)), Sleep retryDelay])
       (updateIndexLoop cfg env payload (attempt + 1) (retryDelay * 2)
          (tr @ inspection env tr @ [UpdateIndex payload (Some (err, stderrStr)), Sleep retryDelay]))"
  by (subst updateIndexLoop.simps)
     (auto simp: proceeds_def inspection_def Let_def split: option.splits)

lemma updateIndexLoop_failure:
  "attempt \<le> IndexUpdateMaxRetries cfg \<Longrightarrow> proceeds cfg env tr \<Longrightarrow>
   runUpdateIndex env (tr @ inspection env tr) payload = Some (err, stderrStr) \<Longrightarrow>
   \<not> (lockConflict stderrStr \<and> attempt < IndexUpdateMaxRetries cfg) \<Longrightarrow>
   updateIndexLoop cfg env payload attempt retryDelay tr =
     (Some (UpdateIndexFailed err stderrStr),
      inspection env tr @ [UpdateIndex payload (Some (err, stderrStr))])"
  by (subst updateIndexLoop.simps)
     (auto simp: proceeds_def inspection_def Let_def split: option.splits)

lemma updateIndexLoop_induct [consumes 0, case_names exhausted wait success conflict failure]:
  assumes exhausted: "\<And>attempt retryDelay tr. \<not> attempt \<le> IndexUpdateMaxRetries cfg \<Longrightarrow> P attempt retryDelay tr"
    and wait: "\<And>attempt retryDelay tr lockAge.
      attempt \<le> IndexUpdateMaxRetries cfg \<Longrightarrow> statLock env tr = Some lockAge \<Longrightarrow>
      \<not> sint (LockFileMaxAge cfg) < sint lockAge \<Longrightarrow>
      P (attempt + 1) retryDelay (tr @ [StatLock (Some lockAge), Sleep retryDelay]) \<Longrightarrow>
      P attempt retryDelay tr"
    and success: "\<And>attempt retryDelay tr.
      attempt \<le> IndexUpdateMaxRetries cfg \<Longrightarrow> proceeds cfg env tr \<Longrightarrow>
      runUpdateIndex env (tr @ inspection env tr) payload = None \<Longrightarrow> P attempt retryDelay tr"
    and conflict: "\<And>attempt retryDelay tr err stderrStr.
      attempt < IndexUpdateMaxRetries cfg \<Longrightarrow> proceeds cfg env tr \<Longrightarrow>
      runUpdateIndex env (tr @ inspection env tr) payload = Some (err, stderrStr) \<Longrightarrow>
      lockConflict stderrStr \<Longrightarrow>
      P (attempt + 1) (retryDelay * 2)
        (tr @ inspection env tr @ [UpdateIndex payload (Some (err, stderrStr)), Sleep retryDelay]) \<Longrightarrow>
      P attempt retryDelay tr"
    and failure: "\<And>attempt retryDelay tr err stderrStr.
      attempt \<le> IndexUpdateMaxRetries cfg \<Longrightarrow> proceeds cfg env tr \<Longrightarrow>
      runUpdateIndex env (tr @ inspection env tr) payload = Some (err, stderrStr) \<Longrightarrow>
      \<not> (lockConflict stderrStr \<and> attempt < IndexUpdateMaxRetries cfg) \<Longrightarrow>
      P attempt retryDelay tr"
  shows "P attempt retryDelay tr"
proof (induction "nat (IndexUpdateMaxRetries cfg + 1 - attempt)" arbitrary: attempt retryDelay tr
    rule: less_induct)
  case (less attempt retryDelay tr)
  show ?case
  proof (cases "attempt \<le> IndexUpdateMaxRetries cfg")
    case False
    then show ?thesis by (rule exhausted)
  next
    case le: True
    then have smaller: "nat (IndexUpdateMaxRetries cfg + 1 - (attempt + 1)) <
        nat (IndexUpdateMaxRetries cfg + 1 - attempt)"
      by simp
    show ?thesis
    proof (cases "proceeds cfg env tr")
      case False
      then obtain lockAge where "statLock env tr = Some lockAge"
        "\<not> sint (LockFileMaxAge cfg) < sint lockAge"
        by (auto simp: proceeds_def split: option.splits)
      with le show ?thesis
        by (rule wait) (rule less [OF smaller])
    next
      case go: True
      show ?thesis
      proof (cases "runUpdateIndex env (tr @ inspection env tr) payload")
        case None
        with le go show ?thesis by (rule success)
      next
        case (Some failed)
        obtain err stderrStr where failed: "failed = (err, stderrStr)" by (cases failed)
        show ?thesis
        proof (cases "lockConflict stderrStr \<and> attempt < IndexUpdateMaxRetries cfg")
          case True
          with go Some failed show ?thesis
            by (intro conflict [of attempt tr err stderrStr] less [OF smaller]) simp_all
        next
          case False
          with le go Some failed show ?thesis
            by (intro failure [of attempt tr err stderrStr]) simp_all
        qed
      qed
    qed
  qed
qed

lemma updateIndexLoop_stale:
  "attempt \<le> IndexUpdateMaxRetries cfg \<Longrightarrow> statLock env tr = Some lockAge \<Longrightarrow>
   sint (LockFileMaxAge cfg) < sint lockAge \<Longrightarrow>
   \<exists>rest. snd (updateIndexLoop cfg env payload attempt retryDelay tr) =
     StatLock (Some lockAge) # RemoveLock (removeLock env (tr @ [StatLock (Some lockAge)])) #
     UpdateIndex payload
       (runUpdateIndex env
          (tr @ [StatLock (Some lockAge), RemoveLock (removeLock env (tr @ [StatLock (Some lockAge)]))])
          payload) # rest"
  by (subst updateIndexLoop.simps) (auto simp: Let_def after_eq split: option.splits)

lemma updateIndexLoop_always_recent:
  assumes "\<forall>h. statLock env h = Some lockAge" and "\<not> sint (LockFileMaxAge cfg) < sint lockAge"
  shows "updateIndexLoop cfg env payload attempt retryDelay tr =
     (Some (UpdateIndexRetriesExhausted (IndexUpdateMaxRetries cfg)),
      concat (replicate (nat (IndexUpdateMaxRetries cfg + 1 - attempt))
                [StatLock (Some lockAge), Sleep retryDelay]))"
proof (induction "nat (IndexUpdateMaxRetries cfg + 1 - attempt)" arbitrary: attempt tr)
  case 0
  then have "\<not> attempt \<le> IndexUpdateMaxRetries cfg" by simp
  from updateIndexLoop_exhausted [OF this] 0 show ?case by simp
next
  case (Suc n)
  then have le: "attempt \<le> IndexUpdateMaxRetries cfg"
    and n: "n = nat (IndexUpdateMaxRetries cfg + 1 - (attempt + 1))"
    and m: "nat (IndexUpdateMaxRetries cfg + 1 - attempt) = Suc n" by simp_all
  from assms have "statLock env tr = Some lockAge" by simp
  from updateIndexLoop_wait [OF le this assms(2), of payload retryDelay]
    Suc.hyps(1) [OF n, of "tr @ [StatLock (Some lockAge), Sleep retryDelay]"]
  have "updateIndexLoop cfg env payload attempt retryDelay tr =
     (Some (UpdateIndexRetriesExhausted (IndexUpdateMaxRetries cfg)),
      [StatLock (Some lockAge), Sleep retryDelay] @
      concat (replicate (nat (IndexUpdateMaxRetries cfg + 1 - (attempt + 1)))
                [StatLock (Some lockAge), Sleep retryDelay]))"
    by simp
  then show ?case by (simp only: m n [symmetric] replicate_Suc concat.simps)
qed

lemma updateIndexLoop_never_accepts:
  assumes "\<forall>h. runUpdateIndex env h payload \<noteq> None"
  shows "fst (updateIndexLoop cfg env payload attempt retryDelay tr) \<noteq> None"
proof (induction attempt retryDelay tr rule: updateIndexLoop_induct [where cfg = cfg and env = env and payload = payload])
  case (exhausted attempt retryDelay tr)
  then show ?case by (simp add: updateIndexLoop_exhausted)
next
  case (wait attempt retryDelay tr lockAge)
  then show ?case by (simp add: updateIndexLoop_wait after_eq)
next
  case (success attempt retryDelay tr)
  with assms [rule_format, of "tr @ inspection env tr"] show ?case by simp
next
  case (conflict attempt retryDelay tr err stderrStr)
  then show ?case by (simp add: updateIndexLoop_conflict after_eq)
next
  case (failure attempt retryDelay tr err stderrStr)
  then show ?case by (simp add: updateIndexLoop_failure)
qed

lemma updateIndexLoop_accepts_success:
  "fst (updateIndexLoop cfg env payload attempt retryDelay tr) = None \<Longrightarrow>
   \<exists>pre. snd (updateIndexLoop cfg env payload attempt retryDelay tr) = pre @ [UpdateIndex payload None]"
proof (induction attempt retryDelay tr rule: updateIndexLoop_induct [where cfg = cfg and env = env and payload = payload])
  case (exhausted attempt retryDelay tr)
  then show ?case by (simp add: updateIndexLoop_exhausted)
next
  case (wait attempt retryDelay tr lockAge)
  from wait(5) wait(1-3) have "fst (updateIndexLoop cfg env payload (attempt + 1) retryDelay
      (tr @ [StatLock (Some lockAge), Sleep retryDelay])) = None"
    by (simp add: updateIndexLoop_wait after_eq)
  from wait(4) [OF this] obtain pre where
    "snd (updateIndexLoop cfg env payload (attempt + 1) retryDelay
      (tr @ [StatLock (Some lockAge), Sleep retryDelay])) = pre @ [UpdateIndex payload None]" ..
  with wait(1-3) show ?case
    by (intro exI [of _ "[StatLock (Some lockAge), Sleep retryDelay] @ pre"])
       (simp add: updateIndexLoop_wait after_eq)
next
  case (success attempt retryDelay tr)
  then show ?case by (simp add: updateIndexLoop_success)
next
  case (conflict attempt retryDelay tr err stderrStr)
  from conflict(6) conflict(1-4) have "fst (updateIndexLoop cfg env payload (attempt + 1) (retryDelay * 2)
      (tr @ inspection env tr @ [UpdateIndex payload (Some (err, stderrStr)), Sleep retryDelay])) = None"
    by (simp add: updateIndexLoop_conflict after_eq)
  from conflict(5) [OF this] obtain pre where
    "snd (updateIndexLoop cfg env payload (attempt + 1) (retryDelay * 2)
      (tr @ inspection env tr @ [UpdateIndex payload (Some (err, stderrStr)), Sleep retryDelay])) =
     pre @ [UpdateIndex payload None]" ..
  with conflict(1-4) show ?case
    by (intro exI [of _ "inspection env tr @ [UpdateIndex payload (Some (err, stderrStr)), Sleep retryDelay] @ pre"])
       (simp add: updateIndexLoop_conflict after_eq)
next
  case (failure attempt retryDelay tr err stderrStr)
  then show ?case by (simp add: updateIndexLoop_failure)
qed

lemma inspection_no_update: "filter isUpdateIndex (inspection env tr) = []"
  by (simp add: inspection_def split: option.splits)

lemma updateIndexLoop_bounded:
  "length (filter isUpdateIndex (snd (updateIndexLoop cfg env payload attempt retryDelay tr))) \<le>
   nat (IndexUpdateMaxRetries cfg + 1 - attempt)"
proof (induction attempt retryDelay tr rule: updateIndexLoop_induct [where cfg = cfg and env = env and payload = payload])
  case (exhausted attempt retryDelay tr)
  then show ?case by (simp add: updateIndexLoop_exhausted)
next
  case (wait attempt retryDelay tr lockAge)
  then show ?case by (simp add: updateIndexLoop_wait after_eq)
next
  case (success attempt retryDelay tr)
  then show ?case by (simp add: updateIndexLoop_success inspection_no_update)
next
  case (conflict attempt retryDelay tr err stderrStr)
  then show ?case by (simp add: updateIndexLoop_conflict after_eq inspection_no_update)
next
  case (failure attempt retryDelay tr err stderrStr)
  then show ?case by (simp add: updateIndexLoop_failure inspection_no_update)
qed

lemma updateIndexLoop_always_contended:
  assumes "\<forall>h. statLock env h = None" and "\<forall>h. runUpdateIndex env h payload = Some (err, stderrStr)"
    and "lockConflict stderrStr"
  shows "attempt \<le> IndexUpdateMaxRetries cfg \<Longrightarrow>
     updateIndexLoop cfg env payload attempt retryDelay tr =
       (Some (UpdateIndexFailed err stderrStr),
        contention payload (err, stderrStr) retryDelay (nat (IndexUpdateMaxRetries cfg - attempt)))"
proof (induction "nat (IndexUpdateMaxRetries cfg - attempt)" arbitrary: attempt retryDelay tr)
  case 0
  then have last: "\<not> (lockConflict stderrStr \<and> attempt < IndexUpdateMaxRetries cfg)" by simp
  have go: "proceeds cfg env tr" and insp: "inspection env tr = [StatLock None]"
    using assms(1) by (simp_all add: proceeds_def inspection_def)
  from assms(2) have "runUpdateIndex env (tr @ inspection env tr) payload = Some (err, stderrStr)" by simp
  from updateIndexLoop_failure [OF "0.prems" go this last, of retryDelay] "0.hyps"
  show ?case by (simp add: insp)
next
  case (Suc n)
  then have lt: "attempt < IndexUpdateMaxRetries cfg"
    and n: "n = nat (IndexUpdateMaxRetries cfg - (attempt + 1))"
    and m: "nat (IndexUpdateMaxRetries cfg - attempt) = Suc n"
    and le: "attempt + 1 \<le> IndexUpdateMaxRetries cfg" by simp_all
  have go: "proceeds cfg env tr" and insp: "inspection env tr = [StatLock None]"
    using assms(1) by (simp_all add: proceeds_def inspection_def)
  from assms(2) have "runUpdateIndex env (tr @ inspection env tr) payload = Some (err, stderrStr)" by simp
  from updateIndexLoop_conflict [OF lt go this assms(3), of retryDelay]
    Suc.hyps(1) [OF n le, of "retryDelay * 2"
      "tr @ inspection env tr @ [UpdateIndex payload (Some (err, stderrStr)), Sleep retryDelay]"]
  have "updateIndexLoop cfg env payload attempt retryDelay tr =
     (Some (UpdateIndexFailed err stderrStr),
      [StatLock None, UpdateIndex payload (Some (err, stderrStr)), Sleep retryDelay] @
      contention payload (err, stderrStr) (retryDelay * 2) (nat (IndexUpdateMaxRetries cfg - (attempt + 1))))"
    by (simp add: insp)
  then show ?case by (simp only: m n [symmetric] contention.simps)
qed

text \<open>
  C2, as amended.  At the head of every attempt of the retry loop of \<open>batchUpdateIndex\<close>
  the lock marker is inspected.  If the marker is older than the configured threshold, its
  deletion is attempted and the index update is run in that same attempt.  If there is a
  marker that is not older than the threshold, it is not deleted, the loop sleeps the
  current retry delay and goes on with the next attempt: the wait uses up one of the
  attempts.  So a run that finds such a marker at every inspection waits as many times as
  there are attempts, never runs the index update, and returns the error that the retries
  are exhausted.
\<close>

theorem batchUpdateIndex_lock_inspection:
  "(operations \<noteq> [] \<longrightarrow>
      batchUpdateIndex cfg env operations tr =
        updateIndexLoop cfg env (indexInfo operations) 1 (IndexUpdateRetryDelay cfg) tr) \<and>
   (attempt \<le> IndexUpdateMaxRetries cfg \<and> statLock env h = Some lockAge \<and>
    sint (LockFileMaxAge cfg) < sint lockAge \<longrightarrow>
      (\<exists>rest. snd (updateIndexLoop cfg env payload attempt retryDelay h) =
         StatLock (Some lockAge) # RemoveLock (removeLock env (h @ [StatLock (Some lockAge)])) #
         UpdateIndex payload
           (runUpdateIndex env
              (h @ [StatLock (Some lockAge), RemoveLock (removeLock env (h @ [StatLock (Some lockAge)]))])
              payload) # rest)) \<and>
   (attempt \<le> IndexUpdateMaxRetries cfg \<and> statLock env h = Some lockAge \<and>
    \<not> sint (LockFileMaxAge cfg) < sint lockAge \<longrightarrow>
      updateIndexLoop cfg env payload attempt retryDelay h =
        after [StatLock (Some lockAge), Sleep retryDelay]
          (updateIndexLoop cfg env payload (attempt + 1) retryDelay
             (h @ [StatLock (Some lockAge), Sleep retryDelay]))) \<and>
   (IndexUpdateMaxRetries cfg < attempt \<longrightarrow>
      updateIndexLoop cfg env payload attempt retryDelay h =
        (Some (UpdateIndexRetriesExhausted (IndexUpdateMaxRetries cfg)), [])) \<and>
   (operations \<noteq> [] \<and> (\<forall>h. statLock env h = Some lockAge) \<and>
    \<not> sint (LockFileMaxAge cfg) < sint lockAge \<longrightarrow>
      batchUpdateIndex cfg env operations tr =
        (Some (UpdateIndexRetriesExhausted (IndexUpdateMaxRetries cfg)),
         concat (replicate (nat (IndexUpdateMaxRetries cfg))
                   [StatLock (Some lockAge), Sleep (IndexUpdateRetryDelay cfg)])))"
proof (intro conjI impI)
  assume "operations \<noteq> []"
  then show "batchUpdateIndex cfg env operations tr =
        updateIndexLoop cfg env (indexInfo operations) 1 (IndexUpdateRetryDelay cfg) tr"
    by (simp add: batchUpdateIndex_def)
next
  assume "attempt \<le> IndexUpdateMaxRetries cfg \<and> statLock env h = Some lockAge \<and>
    sint (LockFileMaxAge cfg) < sint lockAge"
  then show "\<exists>rest. snd (updateIndexLoop cfg env payload attempt retryDelay h) =
         StatLock (Some lockAge) # RemoveLock (removeLock env (h @ [StatLock (Some lockAge)])) #
         UpdateIndex payload
           (runUpdateIndex env
              (h @ [StatLock (Some lockAge), RemoveLock (removeLock env (h @ [StatLock (Some lockAge)]))])
              payload) # rest"
    using updateIndexLoop_stale [of attempt cfg env h lockAge payload retryDelay] by simp
next
  assume "attempt \<le> IndexUpdateMaxRetries cfg \<and> statLock env h = Some lockAge \<and>
    \<not> sint (LockFileMaxAge cfg) < sint lockAge"
  then show "updateIndexLoop cfg env payload attempt retryDelay h =
        after [StatLock (Some lockAge), Sleep retryDelay]
          (updateIndexLoop cfg env payload (attempt + 1) retryDelay
             (h @ [StatLock (Some lockAge), Sleep retryDelay]))"
    using updateIndexLoop_wait [of attempt cfg env h lockAge payload retryDelay] by simp
next
  assume "IndexUpdateMaxRetries cfg < attempt"
  then show "updateIndexLoop cfg env payload attempt retryDelay h =
        (Some (UpdateIndexRetriesExhausted (IndexUpdateMaxRetries cfg)), [])"
    by (simp add: updateIndexLoop_exhausted)
next
  assume a: "operations \<noteq> [] \<and> (\<forall>h. statLock env h = Some lockAge) \<and>
    \<not> sint (LockFileMaxAge cfg) < sint lockAge"
  then have "\<forall>h. statLock env h = Some lockAge" and "\<not> sint (LockFileMaxAge cfg) < sint lockAge"
    by simp_all
  from updateIndexLoop_always_recent [OF this, of "indexInfo operations" 1 "IndexUpdateRetryDelay cfg" tr] a
  show "batchUpdateIndex cfg env operations tr =
        (Some (UpdateIndexRetriesExhausted (IndexUpdateMaxRetries cfg)),
         concat (replicate (nat (IndexUpdateMaxRetries cfg))
                   [StatLock (Some lockAge), Sleep (IndexUpdateRetryDelay cfg)]))"
    by (simp add: batchUpdateIndex_def)
qed

theorem batchUpdateIndex_lock_inspection_witness:
  "oneOperation \<noteq> [] \<and>
   statLock staleLockEnv [] = Some (120 * Second) \<and>
   sint (LockFileMaxAge DefaultConfig) < sint (120 * Second :: Duration) \<and>
   batchUpdateIndex DefaultConfig staleLockEnv oneOperation [] =
     (None, [StatLock (Some (120 * Second)), RemoveLock None,
             UpdateIndex (indexInfo oneOperation) None]) \<and>
   statLock recentLockEnv [] = Some (5 * Second) \<and>
   \<not> sint (LockFileMaxAge DefaultConfig) < sint (5 * Second :: Duration) \<and>
   batchUpdateIndex (DefaultConfig\<lparr>IndexUpdateMaxRetries := 2\<rparr>) recentLockEnv oneOperation [] =
     (Some (UpdateIndexRetriesExhausted 2),
      [StatLock (Some (5 * Second)), Sleep (2 * Second),
       StatLock (Some (5 * Second)), Sleep (2 * Second)])"
  using batchUpdateIndex_lock_inspection [where operations = oneOperation and cfg = DefaultConfig
      and env = staleLockEnv and tr = "[]" and attempt = 1 and h = "[]" and lockAge = "120 * Second"
      and payload = "indexInfo oneOperation" and retryDelay = "2 * Second"]
    batchUpdateIndex_lock_inspection [where operations = oneOperation
      and cfg = "DefaultConfig\<lparr>IndexUpdateMaxRetries := 2\<rparr>"
      and env = recentLockEnv and tr = "[]" and attempt = 1 and h = "[]" and lockAge = "5 * Second"
      and payload = "indexInfo oneOperation" and retryDelay = "2 * Second"]
  by (simp add: batchUpdateIndex_def oneOperation_def DefaultConfig_def staleLockEnv_def
      recentLockEnv_def updateIndexLoop.simps Second_sint)

text \<open>
  With one attempt allowed, a marker five seconds old that is gone after the wait: the wait
  uses up the attempt and the index update is never run.  And a wait that comes after a
  lock conflict sleeps the doubled delay, not the configured one.
\<close>

theorem batchUpdateIndex_lock_inspection_counterexample:
  "batchUpdateIndex (DefaultConfig\<lparr>IndexUpdateMaxRetries := 1\<rparr>)
     \<lparr>statLock = (\<lambda>tr. if tr = [] then Some (5 * Second) else None),
      removeLock = (\<lambda>tr. None),
      runUpdateIndex = (\<lambda>tr payload. None)\<rparr>
     oneOperation [] =
     (Some (UpdateIndexRetriesExhausted 1), [StatLock (Some (5 * Second)), Sleep (2 * Second)]) \<and>
   batchUpdateIndex DefaultConfig
     \<lparr>statLock = (\<lambda>tr. if length tr = 3 then Some (5 * Second) else None),
      removeLock = (\<lambda>tr. None),
      runUpdateIndex = (\<lambda>tr payload.
        if length tr < 3 then Some (External ''exit status 128'', ''index.lock exists'') else None)\<rparr>
     oneOperation [] =
     (None,
      [StatLock None,
       UpdateIndex (indexInfo oneOperation) (Some (External ''exit status 128'', ''index.lock exists'')),
       Sleep (2 * Second),
       StatLock (Some (5 * Second)), Sleep (4 * Second),
       StatLock None, UpdateIndex (indexInfo oneOperation) None])"
  by (simp add: batchUpdateIndex_def oneOperation_def DefaultConfig_def
      updateIndexLoop.simps Second_sint lockConflict_def Second_def)

text \<open>
  C7.  When the index update fails with a diagnostic text that shows a lock conflict and
  attempts are left, the loop sleeps the current retry delay and goes on with the next
  attempt and twice that delay (the 64-bit duration \<open>retryDelay * 2\<close>); when it fails with
  another text, or on the last attempt, the failure is returned at once with no further
  run.  The index update is run at most as many times as there are attempts left.  The
  result is nil only when the last event is a successful run of the index update: if no run
  succeeds the result is an error.  A run that finds no marker and whose index update fails
  with the same lock conflict every time makes exactly the allowed number of attempts, with
  the delay doubling between them, and returns the failure.
\<close>

theorem batchUpdateIndex_contention_retry:
  "(operations \<noteq> [] \<longrightarrow>
      batchUpdateIndex cfg env operations tr =
        updateIndexLoop cfg env (indexInfo operations) 1 (IndexUpdateRetryDelay cfg) tr) \<and>
   (attempt < IndexUpdateMaxRetries cfg \<and> proceeds cfg env h \<and>
    runUpdateIndex env (h @ inspection env h) payload = Some (err, stderrStr) \<and>
    lockConflict stderrStr \<longrightarrow>
      updateIndexLoop cfg env payload attempt retryDelay h =
        after (inspection env h @ [UpdateIndex payload (Some (err, stderrStr)), Sleep retryDelay])
          (updateIndexLoop cfg env payload (attempt + 1) (retryDelay * 2)
             (h @ inspection env h @ [UpdateIndex payload (Some (err, stderrStr)), Sleep retryDelay]))) \<and>
   (attempt \<le> IndexUpdateMaxRetries cfg \<and> proceeds cfg env h \<and>
    runUpdateIndex env (h @ inspection env h) payload = Some (err, stderrStr) \<and>
    (\<not> lockConflict stderrStr \<or> attempt = IndexUpdateMaxRetries cfg) \<longrightarrow>
      updateIndexLoop cfg env payload attempt retryDelay h =
        (Some (UpdateIndexFailed err stderrStr),
         inspection env h @ [UpdateIndex payload (Some (err, stderrStr))])) \<and>
   length (filter isUpdateIndex (snd (updateIndexLoop cfg env payload attempt retryDelay h))) \<le>
     nat (IndexUpdateMaxRetries cfg + 1 - attempt) \<and>
   ((\<forall>h. runUpdateIndex env h payload \<noteq> None) \<longrightarrow>
      fst (updateIndexLoop cfg env payload attempt retryDelay h) \<noteq> None) \<and>
   (fst (updateIndexLoop cfg env payload attempt retryDelay h) = None \<longrightarrow>
      (\<exists>pre. snd (updateIndexLoop cfg env payload attempt retryDelay h) =
         pre @ [UpdateIndex payload None])) \<and>
   ((\<forall>h. statLock env h = None) \<and> (\<forall>h. runUpdateIndex env h payload = Some (err, stderrStr)) \<and>
    lockConflict stderrStr \<and> attempt \<le> IndexUpdateMaxRetries cfg \<longrightarrow>
      updateIndexLoop cfg env payload attempt retryDelay h =
        (Some (UpdateIndexFailed err stderrStr),
         contention payload (err, stderrStr) retryDelay (nat (IndexUpdateMaxRetries cfg - attempt))))"
proof (intro conjI impI)
  assume "operations \<noteq> []"
  then show "batchUpdateIndex cfg env operations tr =
        updateIndexLoop cfg env (indexInfo operations) 1 (IndexUpdateRetryDelay cfg) tr"
    by (simp add: batchUpdateIndex_def)
next
  assume "attempt < IndexUpdateMaxRetries cfg \<and> proceeds cfg env h \<and>
    runUpdateIndex env (h @ inspection env h) payload = Some (err, stderrStr) \<and>
    lockConflict stderrStr"
  then show "updateIndexLoop cfg env payload attempt retryDelay h =
        after (inspection env h @ [UpdateIndex payload (Some (err, stderrStr)), Sleep retryDelay])
          (updateIndexLoop cfg env payload (attempt + 1) (retryDelay * 2)
             (h @ inspection env h @ [UpdateIndex payload (Some (err, stderrStr)), Sleep retryDelay]))"
    using updateIndexLoop_conflict [of attempt cfg env h payload err stderrStr retryDelay] by simp
next
  assume "attempt \<le> IndexUpdateMaxRetries cfg \<and> proceeds cfg env h \<and>
    runUpdateIndex env (h @ inspection env h) payload = Some (err, stderrStr) \<and>
    (\<not> lockConflict stderrStr \<or> attempt = IndexUpdateMaxRetries cfg)"
  then show "updateIndexLoop cfg env payload attempt retryDelay h =
        (Some (UpdateIndexFailed err stderrStr),
         inspection env h @ [UpdateIndex payload (Some (err, stderrStr))])"
    using updateIndexLoop_failure [of attempt cfg env h payload err stderrStr retryDelay] by auto
next
  show "length (filter isUpdateIndex (snd (updateIndexLoop cfg env payload attempt retryDelay h))) \<le>
     nat (IndexUpdateMaxRetries cfg + 1 - attempt)"
    by (rule updateIndexLoop_bounded)
next
  assume "\<forall>h. runUpdateIndex env h payload \<noteq> None"
  then show "fst (updateIndexLoop cfg env payload attempt retryDelay h) \<noteq> None"
    by (rule updateIndexLoop_never_accepts)
next
  assume "fst (updateIndexLoop cfg env payload attempt retryDelay h) = None"
  then show "\<exists>pre. snd (updateIndexLoop cfg env payload attempt retryDelay h) =
         pre @ [UpdateIndex payload None]"
    by (rule updateIndexLoop_accepts_success)
next
  assume a: "(\<forall>h. statLock env h = None) \<and> (\<forall>h. runUpdateIndex env h payload = Some (err, stderrStr)) \<and>
    lockConflict stderrStr \<and> attempt \<le> IndexUpdateMaxRetries cfg"
  then have "\<forall>h. statLock env h = None" "\<forall>h. runUpdateIndex env h payload = Some (err, stderrStr)"
    "lockConflict stderrStr" "attempt \<le> IndexUpdateMaxRetries cfg" by simp_all
  then show "updateIndexLoop cfg env payload attempt retryDelay h =
        (Some (UpdateIndexFailed err stderrStr),
         contention payload (err, stderrStr) retryDelay (nat (IndexUpdateMaxRetries cfg - attempt)))"
    by (rule updateIndexLoop_always_contended)
qed

lemma lockConflict_examples:
  "lockConflict ''fatal: Unable to create index.lock: File exists''"
  "\<not> lockConflict ''fatal: bad object''"
  by (simp_all add: lockConflict_def fileExistsMessage_def)

theorem batchUpdateIndex_contention_retry_witness:
  "oneOperation \<noteq> [] \<and>
   proceeds DefaultConfig conflictTwiceEnv [] \<and>
   lockConflict ''fatal: Unable to create index.lock: File exists'' \<and>
   \<not> lockConflict ''fatal: bad object'' \<and>
   batchUpdateIndex DefaultConfig conflictTwiceEnv oneOperation [] =
     (None,
      [StatLock None,
       UpdateIndex (indexInfo oneOperation)
         (Some (External ''exit status 128'', ''fatal: Unable to create index.lock: File exists'')),
       Sleep (2 * Second),
       StatLock None,
       UpdateIndex (indexInfo oneOperation)
         (Some (External ''exit status 128'', ''fatal: Unable to create index.lock: File exists'')),
       Sleep (4 * Second),
       StatLock None, UpdateIndex (indexInfo oneOperation) None]) \<and>
   batchUpdateIndex (DefaultConfig\<lparr>IndexUpdateMaxRetries := 2\<rparr>) contendedEnv oneOperation [] =
     (Some (UpdateIndexFailed (External ''exit status 128'')
              ''fatal: Unable to create index.lock: File exists''),
      [StatLock None,
       UpdateIndex (indexInfo oneOperation)
         (Some (External ''exit status 128'', ''fatal: Unable to create index.lock: File exists'')),
       Sleep (2 * Second),
       StatLock None,
       UpdateIndex (indexInfo oneOperation)
         (Some (External ''exit status 128'', ''fatal: Unable to create index.lock: File exists''))]) \<and>
   batchUpdateIndex DefaultConfig brokenEnv oneOperation [] =
     (Some (UpdateIndexFailed (External ''exit status 128'') ''fatal: bad object''),
      [StatLock None,
       UpdateIndex (indexInfo oneOperation) (Some (External ''exit status 128'', ''fatal: bad object''))])"
  using batchUpdateIndex_contention_retry [where operations = oneOperation and cfg = DefaultConfig
      and env = conflictTwiceEnv and tr = "[]" and attempt = 1 and h = "[]"
      and payload = "indexInfo oneOperation" and retryDelay = "2 * Second"
      and err = "External ''exit status 128''"
      and stderrStr = "''fatal: Unable to create index.lock: File exists''"]
    batchUpdateIndex_contention_retry [where operations = oneOperation
      and cfg = "DefaultConfig\<lparr>IndexUpdateMaxRetries := 2\<rparr>"
      and env = contendedEnv and tr = "[]" and attempt = 1 and h = "[]"
      and payload = "indexInfo oneOperation" and retryDelay = "2 * Second"
      and err = "External ''exit status 128''"
      and stderrStr = "''fatal: Unable to create index.lock: File exists''"]
    batchUpdateIndex_contention_retry [where operations = oneOperation and cfg = DefaultConfig
      and env = brokenEnv and tr = "[]" and attempt = 1 and h = "[]"
      and payload = "indexInfo oneOperation" and retryDelay = "2 * Second"
      and err = "External ''exit status 128''"
      and stderrStr = "''fatal: bad object''"]
  by (simp add: batchUpdateIndex_def oneOperation_def DefaultConfig_def conflictTwiceEnv_def
      contendedEnv_def brokenEnv_def proceeds_def inspection_def
      updateIndexLoop.simps Second_def lockConflict_examples)

section \<open>Properties of the Batch Executor\<close>

















end
